theory Spec2Isabelle
  imports Main "HOL-Library.Sublist"
begin

section \<open>DevForge: the command router and its pipelines (src/extension.ts)\<close>

text \<open>
  The extension is a chat panel whose lines are routed by \<open>handleUserCommand\<close> to five
  registered command handlers (\<open>devforge.runEnv\<close>, \<open>devforge.runSummary\<close>,
  \<open>devforge.runTests\<close>, \<open>devforge.runFlow\<close>, \<open>devforge.runLogs\<close>).
  Every handler is modelled as a function from the state of the outside world to the
  list of external calls it makes, in program order, together with the way the handler's
  promise settles. Strings are byte strings; the model of the JavaScript string
  operations is exact on ASCII text.
\<close>

subsection \<open>JavaScript strings\<close>

text \<open>\<open>s.includes(t)\<close>: \<open>t\<close> occurs in \<open>s\<close> as a contiguous substring.\<close>

definition str_includes :: "string \<Rightarrow> string \<Rightarrow> bool" where
  "str_includes s t = sublist t s"

text \<open>The white space of \<open>trim()\<close> and of the regular expression class \<open>\s\<close> (ASCII part).\<close>

definition is_space :: "char \<Rightarrow> bool" where
  "is_space c = (c \<in> set [CHR '' '', CHR 0x09, CHR 0x0A, CHR 0x0B, CHR 0x0C, CHR 0x0D])"

definition trim :: "string \<Rightarrow> string" where
  "trim s = rev (dropWhile is_space (rev (dropWhile is_space s)))"

text \<open>\<open>toLowerCase()\<close> maps the letters A to Z to a to z and keeps every other character.\<close>

definition lower_char :: "char \<Rightarrow> char" where
  "lower_char c =
     (case map_of (zip ''ABCDEFGHIJKLMNOPQRSTUVWXYZ'' ''abcdefghijklmnopqrstuvwxyz'') c of
        None \<Rightarrow> c
      | Some l \<Rightarrow> l)"

definition toLowerCase :: "string \<Rightarrow> string" where
  "toLowerCase s = map lower_char s"

text \<open>
  \<open>s.split(/\s+/)\<close>: the pieces of \<open>s\<close> between maximal runs of white space. The empty
  string gives one empty piece; leading or trailing white space gives an empty first or
  last piece.
\<close>

function split_spaces :: "string \<Rightarrow> string list" where
  "split_spaces s =
     (let piece = takeWhile (\<lambda>c. \<not> is_space c) s;
          rest = dropWhile (\<lambda>c. \<not> is_space c) s
      in if rest = [] then [piece] else piece # split_spaces (dropWhile is_space rest))"
  by pat_completeness auto
termination
proof (relation "measure length")
  fix s piece rest
  assume r: "rest = dropWhile (\<lambda>c. \<not> is_space c) s" and ne: "rest \<noteq> []"
  have "length (dropWhile is_space rest) < length rest"
  proof (cases rest)
    case Nil
    with ne show ?thesis by simp
  next
    case (Cons c cs)
    with r have "is_space c"
      by (metis hd_dropWhile list.sel(1) ne)
    with Cons have "dropWhile is_space rest = dropWhile is_space cs" by simp
    moreover have "length (dropWhile is_space cs) \<le> length cs"
      by (rule length_dropWhile_le)
    ultimately show ?thesis using Cons by simp
  qed
  moreover have "length rest \<le> length s"
    unfolding r by (rule length_dropWhile_le)
  ultimately show "(dropWhile is_space rest, s) \<in> measure length" by simp
qed simp

declare split_spaces.simps [simp del]

text \<open>\<open>parts.join(sep)\<close>.\<close>

fun join :: "string \<Rightarrow> string list \<Rightarrow> string" where
  "join sep [] = []"
| "join sep [p] = p"
| "join sep (p # q # ps) = p @ sep @ join sep (q # ps)"

text \<open>
  A string interpolated into a template literal; a value that is \<open>undefined\<close> is printed
  as the word \<open>undefined\<close>. The operator \<open>a || b\<close> on strings takes \<open>b\<close> when \<open>a\<close> is
  \<open>undefined\<close> or empty.
\<close>

definition truthy :: "string option \<Rightarrow> bool" where
  "truthy v = (case v of None \<Rightarrow> False | Some s \<Rightarrow> s \<noteq> [])"

definition template :: "string option \<Rightarrow> string" where
  "template v = (case v of None \<Rightarrow> ''undefined'' | Some s \<Rightarrow> s)"

definition or_else :: "string option \<Rightarrow> string \<Rightarrow> string" where
  "or_else v d = (case v of None \<Rightarrow> d | Some s \<Rightarrow> if s = [] then d else s)"

definition digit_char :: "nat \<Rightarrow> char" where
  "digit_char d = ''0123456789'' ! (d mod 10)"

fun string_of_nat :: "nat \<Rightarrow> string" where
  "string_of_nat n =
     (if n < 10 then [digit_char n] else string_of_nat (n div 10) @ [digit_char n])"

declare string_of_nat.simps [simp del]

subsection \<open>Node's \<open>path\<close> module, POSIX flavour\<close>

text \<open>
  \<open>path.join\<close>, \<open>path.basename\<close> and \<open>path.relative\<close> belong to the Node runtime. They are
  modelled on segments: a path is cut at every \<open>/\<close>, empty and \<open>.\<close> segments are dropped,
  and a \<open>..\<close> segment removes the segment before it (above the root of an absolute path
  it is dropped, above the start of a relative path it is kept).
\<close>

fun split_slash :: "string \<Rightarrow> string list" where
  "split_slash [] = [[]]"
| "split_slash (c # cs) =
     (if c = CHR ''/'' then [] # split_slash cs
      else (case split_slash cs of [] \<Rightarrow> [[c]] | p # ps \<Rightarrow> (c # p) # ps))"

text \<open>The second argument is the stack of segments already kept, innermost first.\<close>

fun normalize_segments :: "bool \<Rightarrow> string list \<Rightarrow> string list \<Rightarrow> string list" where
  "normalize_segments allowAboveRoot kept [] = rev kept"
| "normalize_segments allowAboveRoot kept (seg # segs) =
     (if seg = [] \<or> seg = ''.'' then normalize_segments allowAboveRoot kept segs
      else if seg = ''..'' then
        (case kept of
           [] \<Rightarrow> normalize_segments allowAboveRoot (if allowAboveRoot then [''..''] else []) segs
         | k # ks \<Rightarrow>
             if k = ''..'' then normalize_segments allowAboveRoot (''..'' # kept) segs
             else normalize_segments allowAboveRoot ks segs)
      else normalize_segments allowAboveRoot (seg # kept) segs)"

definition is_absolute :: "string \<Rightarrow> bool" where
  "is_absolute p = (p \<noteq> [] \<and> hd p = CHR ''/'')"

definition path_normalize :: "string \<Rightarrow> string" where
  "path_normalize p =
     (if p = [] then ''.''
      else
        (let absolute = is_absolute p;
             trailing = (last p = CHR ''/'');
             body = join ''/'' (normalize_segments (\<not> absolute) [] (split_slash p))
         in if body = [] then (if absolute then ''/'' else if trailing then ''./'' else ''.'')
            else (if absolute then ''/'' else []) @ body @ (if trailing then ''/'' else [])))"

definition path_join :: "string list \<Rightarrow> string" where
  "path_join args =
     (let given = filter (\<lambda>a. a \<noteq> []) args
      in if given = [] then ''.'' else path_normalize (join ''/'' given))"

definition path_basename :: "string \<Rightarrow> string" where
  "path_basename p =
     rev (takeWhile (\<lambda>c. c \<noteq> CHR ''/'') (dropWhile (\<lambda>c. c = CHR ''/'') (rev p)))"

text \<open>\<open>path.resolve\<close> of one path, as the segments below the root.\<close>

definition resolve_segments :: "string \<Rightarrow> string \<Rightarrow> string list" where
  "resolve_segments cwd p =
     normalize_segments False []
       (split_slash (if is_absolute p then p else cwd @ ''/'' @ p))"

fun drop_common :: "string list \<Rightarrow> string list \<Rightarrow> string list \<times> string list" where
  "drop_common (a # as) (b # bs) = (if a = b then drop_common as bs else (a # as, b # bs))"
| "drop_common as bs = (as, bs)"

definition path_relative :: "string \<Rightarrow> string \<Rightarrow> string \<Rightarrow> string" where
  "path_relative cwd from to =
     (case drop_common (resolve_segments cwd from) (resolve_segments cwd to) of
        (up, down) \<Rightarrow> join ''/'' (map (\<lambda>_. ''..'') up @ down))"

subsection \<open>\<open>String.prototype.replace\<close> with a group of literal alternatives\<close>

text \<open>
  \<open>s.replace(/(a1|a2|...)/, f)\<close> without the global flag: the leftmost position at which
  some alternative matches is rewritten, and at that position the alternatives are tried
  in the order they are written. \<open>f\<close> receives the matched text (\<open>$&\<close>).
\<close>

fun first_alternative :: "string list \<Rightarrow> string \<Rightarrow> string option" where
  "first_alternative [] s = None"
| "first_alternative (a # as) s = (if prefix a s then Some a else first_alternative as s)"

fun replace_first :: "string list \<Rightarrow> (string \<Rightarrow> string) \<Rightarrow> string \<Rightarrow> string" where
  "replace_first alts f [] = (case first_alternative alts [] of None \<Rightarrow> [] | Some m \<Rightarrow> f m)"
| "replace_first alts f (c # cs) =
     (case first_alternative alts (c # cs) of
        None \<Rightarrow> c # replace_first alts f cs
      | Some m \<Rightarrow> f m @ drop (length m) (c # cs))"

subsection \<open>The outside world and the calls made to it\<close>

datatype js_error = Error (message: string)

text \<open>
  The body posted to the webhook. The constructor is the \<open>task\<close> field; its arguments
  are \<open>filename\<close> and \<open>content\<close>, or \<open>project_context\<close> and \<open>root_path\<close>.
\<close>

datatype request =
    Summarize string string
  | Generate_test string string
  | Flow_analysis string string

text \<open>What the callback of \<open>child_process.exec\<close> receives.\<close>

record exec_result =
  error :: "js_error option"
  stdout :: string
  stderr :: string

text \<open>
  The state of the editor, of the webview provider and of the collaborators. A field
  that is a function gives the result of the call of that name: \<open>Inl\<close> is the exception
  thrown (or the rejection of the promise). \<open>axios_post\<close> returns \<open>response.data.summary\<close>,
  the response body being an object as the protocol of the endpoint has it.
  \<open>workspace_search\<close> is the list of files of the workspace that match an include and an
  exclude pattern, in the order the host finds them.
\<close>

record world =
  workspaceRoot :: "string option"
  activeTextEditor :: "string option"
  view :: bool
  process_cwd :: string
  existsSync :: "string \<Rightarrow> bool"
  readFileSync :: "string \<Rightarrow> js_error + string"
  mkdirSync :: "string \<Rightarrow> js_error + unit"
  writeFileSync :: "string \<Rightarrow> string \<Rightarrow> js_error + unit"
  axios_post :: "string \<Rightarrow> request \<Rightarrow> js_error + string option"
  exec :: "string \<Rightarrow> string option \<Rightarrow> exec_result"
  workspace_search :: "string \<Rightarrow> string \<Rightarrow> js_error + string list"

datatype event =
    ShowInformationMessage string
  | CreateTerminal string
  | TerminalShow
  | TerminalSendText string
  | PostMessage string
  | ReadFileSync string
  | MkdirSync string
  | WriteFileSync string string
  | AxiosPost string request
  | FindFiles string string nat
  | Exec string "string option"
  | OpenTextDocument string
  | ConsoleError string js_error
  | ExecuteCommand string "string list"

text \<open>How the promise of an \<open>async\<close> handler settles.\<close>

datatype outcome = Resolved | Rejected js_error

type_synonym run = "event list \<times> outcome"

definition N8N_WEBHOOK_URL :: string where
  "N8N_WEBHOOK_URL = ''https://clownsbeta.app.n8n.cloud/webhook/devforge-analysis''"

definition FLOW_FILE_PATTERNS :: "string list" where
  "FLOW_FILE_PATTERNS =
     [''**/package.json'', ''**/*.html'', ''**/index.js'', ''**/index.ts'', ''**/index.jsx'',
      ''**/index.tsx'', ''**/server.js'', ''**/server.ts'', ''**/src/**/*.js'',
      ''**/src/**/*.ts'', ''**/src/**/*.jsx'', ''**/src/**/*.tsx'']"

definition MAX_CONTEXT_FILES :: nat where
  "MAX_CONTEXT_FILES = 8"

text \<open>\<open>vscode.workspace.findFiles(include, exclude, maxResults)\<close>: at most \<open>maxResults\<close> matches.\<close>

definition findFiles :: "world \<Rightarrow> string \<Rightarrow> string \<Rightarrow> nat \<Rightarrow> js_error + string list" where
  "findFiles w incl excl maxResults =
     (case workspace_search w incl excl of
        Inl e \<Rightarrow> Inl e
      | Inr uris \<Rightarrow> Inr (take maxResults uris))"

text \<open>\<open>DevForgeChatProvider.postMessageToWebview\<close>: posts only once the view is resolved.\<close>

definition postMessageToWebview :: "world \<Rightarrow> string \<Rightarrow> event list" where
  "postMessageToWebview w text = (if view w then [PostMessage text] else [])"

subsection \<open>Command: Environment Manager (\<open>devforge.runEnv\<close>)\<close>

definition runEnv :: "world \<Rightarrow> string \<Rightarrow> run" where
  "runEnv w envName =
     ([ShowInformationMessage (''[DevForge] Starting environment: '' @ envName @ ''...''),
       CreateTerminal (''DevForge: '' @ envName),
       TerminalShow,
       TerminalSendText
         (''docker-compose -f docker-compose.'' @ envName @ ''.yml up -d --build'')]
      @ postMessageToWebview w
          (''Environment setup triggered for **'' @ envName
           @ ''** in the integrated terminal. Check the TERMINAL tab.''),
      Resolved)"

subsection \<open>Command: File Analysis/Summary (\<open>devforge.runSummary\<close>)\<close>

text \<open>The path resolution of the handler: \<open>targetPath\<close> stays \<open>undefined\<close> in two cases.\<close>

definition summary_targetPath :: "world \<Rightarrow> string \<Rightarrow> string option" where
  "summary_targetPath w filePath =
     (if filePath \<noteq> [] then
        (case workspaceRoot w of
           None \<Rightarrow> None
         | Some root \<Rightarrow> if root \<noteq> [] then Some (path_join [root, filePath]) else None)
      else activeTextEditor w)"

definition summary_catch :: "world \<Rightarrow> js_error \<Rightarrow> event list" where
  "summary_catch w e =
     postMessageToWebview w
       (''[DevForge] Agent integration failed (Check N8N/API). Error: '' @ message e)
     @ [ConsoleError ''n8n Agent Integration Error:'' e]"

definition summary_not_found :: "world \<Rightarrow> string \<Rightarrow> run" where
  "summary_not_found w filePath =
     (postMessageToWebview w
        (''[DevForge] ERROR: File not found or invalid path provided: ''
         @ or_else (Some filePath) ''No active file'' @ ''.''),
      Resolved)"

definition runSummary :: "world \<Rightarrow> string \<Rightarrow> run" where
  "runSummary w filePath =
     (case summary_targetPath w filePath of
        None \<Rightarrow> summary_not_found w filePath
      | Some targetPath \<Rightarrow>
          if targetPath = [] \<or> \<not> existsSync w targetPath then summary_not_found w filePath
          else
            (let info = [ShowInformationMessage
                           (''[DevForge] Sending file to n8n agent for analysis: ''
                            @ path_basename targetPath @ ''...''),
                         ReadFileSync targetPath]
             in case readFileSync w targetPath of
                  Inl e \<Rightarrow> (info @ summary_catch w e, Resolved)
                | Inr content \<Rightarrow>
                    (let req = Summarize (path_basename targetPath) content;
                         sent = info @ [AxiosPost N8N_WEBHOOK_URL req]
                     in case axios_post w N8N_WEBHOOK_URL req of
                          Inl e \<Rightarrow> (sent @ summary_catch w e, Resolved)
                        | Inr summary \<Rightarrow>
                            (sent @ postMessageToWebview w
                               (''**Agent Analysis for '' @ path_basename targetPath
                                @ '':**\<newline>\<newline>''
                                @ or_else summary
                                    ''Analysis failed: Agent returned no specific summary text.''),
                             Resolved))))"

subsection \<open>Command: Unit Test Generation and Execution (\<open>devforge.runTests\<close>)\<close>

definition tests_targetPath :: "world \<Rightarrow> string \<Rightarrow> string" where
  "tests_targetPath w filePath =
     path_join [or_else (workspaceRoot w) [],
                or_else (Some filePath) (or_else (activeTextEditor w) [])]"

text \<open>\<open>path.basename(targetPath).replace(/(\.js|\.ts|\.jsx|\.tsx)/, '.test$&')\<close>\<close>

definition testFilename :: "string \<Rightarrow> string" where
  "testFilename targetPath =
     replace_first [''.js'', ''.ts'', ''.jsx'', ''.tsx''] (\<lambda>m. ''.test'' @ m)
       (path_basename targetPath)"

definition testFilePath :: "world \<Rightarrow> string \<Rightarrow> string" where
  "testFilePath w targetPath =
     path_join [or_else (workspaceRoot w) [], ''tests'', testFilename targetPath]"

text \<open>
  The body of the \<open>try\<close> block that saves the test: the calls made, and the exception
  if one of them throws.
\<close>

definition save_test :: "world \<Rightarrow> string \<Rightarrow> string \<Rightarrow> event list \<times> js_error option" where
  "save_test w targetPath generatedTest =
     (let write = WriteFileSync (testFilePath w targetPath) generatedTest;
          written = (case writeFileSync w (testFilePath w targetPath) generatedTest of
                       Inl e \<Rightarrow> Some e
                     | Inr _ \<Rightarrow> None)
      in case workspaceRoot w of
           None \<Rightarrow> ([write], written)
         | Some root \<Rightarrow>
             if root \<noteq> [] \<and> \<not> existsSync w (path_join [root, ''tests'']) then
               (case mkdirSync w (path_join [root, ''tests'']) of
                  Inl e \<Rightarrow> ([MkdirSync (path_join [root, ''tests''])], Some e)
                | Inr _ \<Rightarrow> ([MkdirSync (path_join [root, ''tests'']), write], written))
             else ([write], written))"

text \<open>The callback of \<open>exec('npm test', ...)\<close>.\<close>

definition tests_callback :: "world \<Rightarrow> string \<Rightarrow> exec_result \<Rightarrow> event list" where
  "tests_callback w path r =
     (let resultOutput = stdout r @ stderr r;
          isSuccess = (str_includes (toLowerCase resultOutput) ''pass'' \<and> error r = None)
      in postMessageToWebview w
           (''**Test Execution Results:** ''
            @ (if isSuccess then [CHR 0xE2, CHR 0x9C, CHR 0x85] @ '' PASSED''
               else [CHR 0xE2, CHR 0x9D, CHR 0x8C] @ '' FAILED'')
            @ ''\<newline>\<newline>```\<newline>'' @ resultOutput @ ''\<newline>```'')
         @ [OpenTextDocument path])"

text \<open>\<open>!generatedTest || generatedTest.includes('failed')\<close>\<close>

definition generation_failed :: "string option \<Rightarrow> bool" where
  "generation_failed generatedTest =
     (case generatedTest of
        None \<Rightarrow> True
      | Some code \<Rightarrow> code = [] \<or> str_includes code ''failed'')"

text \<open>Steps 2 and 3 of the handler, reached with generated code that passed the check.\<close>

definition save_and_execute :: "world \<Rightarrow> string \<Rightarrow> string \<Rightarrow> run" where
  "save_and_execute w targetPath generatedTest =
     (case save_test w targetPath generatedTest of
        (saving, Some e) \<Rightarrow>
          (saving @ postMessageToWebview w
             ''[ERROR] Could not save test file. Check folder permissions.'',
           Resolved)
      | (saving, None) \<Rightarrow>
          (saving
           @ postMessageToWebview w
               (''Test file saved to **tests/'' @ testFilename targetPath
                @ ''**. Now executing tests... (Check Terminal for full log)'')
           @ [Exec ''npm test'' (workspaceRoot w)]
           @ tests_callback w (testFilePath w targetPath)
               (exec w ''npm test'' (workspaceRoot w)),
           Resolved))"

definition runTests :: "world \<Rightarrow> string \<Rightarrow> run" where
  "runTests w filePath =
     (let targetPath = tests_targetPath w filePath
      in if targetPath = [] \<or> \<not> existsSync w targetPath then
           (postMessageToWebview w
              (''[DevForge] ERROR: File not found: ''
               @ or_else (Some filePath) ''No active file'' @ ''.''),
            Resolved)
         else
           (let info = [ShowInformationMessage
                          (''[DevForge] Generating test for: ''
                           @ path_basename targetPath @ ''...''),
                        ReadFileSync targetPath]
            in case readFileSync w targetPath of
                 Inl e \<Rightarrow> (info, Rejected e)
               | Inr content \<Rightarrow>
                   (let req = Generate_test (path_basename targetPath) content;
                        sent = info @ [AxiosPost N8N_WEBHOOK_URL req]
                    in case axios_post w N8N_WEBHOOK_URL req of
                         Inl e \<Rightarrow> (sent, Rejected e)
                       | Inr generatedTest \<Rightarrow>
                           (case (generation_failed generatedTest, generatedTest) of
                              (False, Some code) \<Rightarrow>
                                (case save_and_execute w targetPath code of
                                   (evs, settled) \<Rightarrow> (sent @ evs, settled))
                            | _ \<Rightarrow>
                                (sent @ postMessageToWebview w
                                   (''**AI Test Generation Failed.** Output:\<newline>\<newline>''
                                    @ template generatedTest),
                                 Resolved)))))"

subsection \<open>Command: Project Flow Analysis (\<open>devforge.runFlow\<close>)\<close>

text \<open>What one round of the loop appends to \<open>contextString\<close>.\<close>

definition context_entry :: "string \<Rightarrow> string \<Rightarrow> string" where
  "context_entry relativePath content =
     ''\<newline>\<newline>### FILE: '' @ relativePath @ '' ###\<newline>\<newline>```\<newline>'' @ content @ ''\<newline>```''"

text \<open>
  The loop over \<open>fileUris\<close>, started with the text built so far: the reads made, and
  the final text or the exception of the first read that throws.
\<close>

fun build_context ::
  "world \<Rightarrow> string \<Rightarrow> string list \<Rightarrow> string \<Rightarrow> event list \<times> (js_error + string)" where
  "build_context w root [] contextString = ([], Inr contextString)"
| "build_context w root (uri # uris) contextString =
     (case readFileSync w uri of
        Inl e \<Rightarrow> ([ReadFileSync uri], Inl e)
      | Inr content \<Rightarrow>
          (case build_context w root uris
                  (contextString
                   @ context_entry (path_relative (process_cwd w) root uri) content) of
             (reads, r) \<Rightarrow> (ReadFileSync uri # reads, r)))"

definition flow_catch :: "world \<Rightarrow> js_error \<Rightarrow> event list" where
  "flow_catch w e =
     postMessageToWebview w
       (''[ERROR] Flow analysis failed during execution: '' @ message e)
     @ [ConsoleError ''Project Flow Analysis Error:'' e]"

definition flow_globPattern :: string where
  "flow_globPattern = ''{'' @ join '','' FLOW_FILE_PATTERNS @ ''}''"

definition runFlow :: "world \<Rightarrow> run" where
  "runFlow w =
     (if \<not> truthy (workspaceRoot w) then
        (postMessageToWebview w
           ''[ERROR] Please open a project folder to run flow analysis.'',
         Resolved)
      else
        (let root = template (workspaceRoot w);
             started = [ShowInformationMessage
                          ''[DevForge] Analyzing project flow across multiple files...'',
                        FindFiles flow_globPattern ''**/node_modules/**'' MAX_CONTEXT_FILES]
         in case findFiles w flow_globPattern ''**/node_modules/**'' MAX_CONTEXT_FILES of
              Inl e \<Rightarrow> (started @ flow_catch w e, Resolved)
            | Inr fileUris \<Rightarrow>
                if length fileUris = 0 then
                  (started @ postMessageToWebview w
                     ''[DevForge] Could not find relevant source files in the project.'',
                   Resolved)
                else
                  (case build_context w root fileUris [] of
                     (reads, Inl e) \<Rightarrow> (started @ reads @ flow_catch w e, Resolved)
                   | (reads, Inr contextString) \<Rightarrow>
                       (let req = Flow_analysis contextString (path_basename root);
                            sent = started @ reads
                              @ [ShowInformationMessage
                                   (''[DevForge] Sending '' @ string_of_nat (length fileUris)
                                    @ '' files to AI for flow mapping...''),
                                 AxiosPost N8N_WEBHOOK_URL req]
                        in case axios_post w N8N_WEBHOOK_URL req of
                             Inl e \<Rightarrow> (sent @ flow_catch w e, Resolved)
                           | Inr summary \<Rightarrow>
                               (sent @ postMessageToWebview w
                                  (''**Project Flow Analysis for '' @ path_basename root
                                   @ '':**\<newline>\<newline>''
                                   @ or_else summary
                                       ''Flow analysis failed. Check N8N workflow for response.''),
                                Resolved)))))"

subsection \<open>Command: Log Debugger/Analyzer (\<open>devforge.runLogs\<close>)\<close>

text \<open>The callback of \<open>exec(`tail -n 10 ${logFile}`, ...)\<close>.\<close>

definition logs_callback :: "world \<Rightarrow> string \<Rightarrow> exec_result \<Rightarrow> event list" where
  "logs_callback w fileName r =
     (if error r \<noteq> None \<or> stderr r \<noteq> [] then
        postMessageToWebview w
          (''[ERROR] Could not read log file '' @ [CHR 0x27] @ fileName @ [CHR 0x27]
           @ ''. Check file existence in project root. Shell Error: ''
           @ or_else (map_option message (error r)) (stderr r))
      else
        postMessageToWebview w
          (''**Log Snapshot for '' @ fileName @ '' (Last 10 lines):**\<newline>```\<newline>''
           @ stdout r @ ''\<newline>```''))"

definition runLogs :: "world \<Rightarrow> string \<Rightarrow> run" where
  "runLogs w fileName =
     (if \<not> truthy (workspaceRoot w) then
        (postMessageToWebview w
           ''[ERROR] Please open a project folder to run log analysis.'',
         Resolved)
      else
        ([ShowInformationMessage (''[DevForge] Fetching log snapshot for: '' @ fileName),
          Exec (''tail -n 10 '' @ fileName) (workspaceRoot w)]
         @ logs_callback w fileName (exec w (''tail -n 10 '' @ fileName) (workspaceRoot w)),
         Resolved))"

subsection \<open>The registered commands\<close>

text \<open>
  \<open>vscode.commands.executeCommand(id, ...args)\<close> with the handlers that \<open>activate\<close>
  registers. A handler reads its first argument; a missing one is \<open>undefined\<close>.
\<close>

definition first_arg :: "string list \<Rightarrow> string option" where
  "first_arg args = (case args of [] \<Rightarrow> None | a # _ \<Rightarrow> Some a)"

definition executeCommand :: "world \<Rightarrow> string \<Rightarrow> string list \<Rightarrow> run option" where
  "executeCommand w command args =
     (if command = ''devforge.runEnv'' then Some (runEnv w (template (first_arg args)))
      else if command = ''devforge.runSummary'' then
        Some (runSummary w (or_else (first_arg args) []))
      else if command = ''devforge.runLogs'' then Some (runLogs w (template (first_arg args)))
      else if command = ''devforge.runTests'' then
        Some (runTests w (or_else (first_arg args) []))
      else if command = ''devforge.runFlow'' then Some (runFlow w)
      else None)"

subsection \<open>The router (\<open>DevForgeChatProvider.handleUserCommand\<close>)\<close>

definition helpText :: string where
  "helpText =
      ''\<newline>''
      @ ''**DevForge Agent Commands:**\<newline>''
      @ ''| Command | Action | Example |\<newline>''
      @ ''| :--- | :--- | :--- |\<newline>''
      @ ''| **/flow** | **[NEW]** Analyzes the entire project structure and data flow. | `/flow` |\<newline>''
      @ ''| **/summary [file]** | Runs AI static analysis (flaws, suggestions). | `/summary index.js` |\<newline>''
      @ ''| **/test [file]** | **Generates and executes** a unit test suite. | `/test component.js` |\<newline>''
      @ ''| **/logs [file]** | Fetches the last 10 lines of the log file from the project root. | `/logs app.log` |\<newline>''
      @ ''| **/env [version]** | Executes Docker Compose for the environment version (e.g., `node-18`). | `/env node-18` |\<newline>''
      @ ''| **/help** | Displays this command list. | `/help` |\<newline>''"

text \<open>
  The result is the list of calls of the router itself; \<open>Inl\<close> is the \<open>TypeError\<close> of
  \<open>parts[0].toLowerCase()\<close> on an empty array.
\<close>

definition handleUserCommand :: "world \<Rightarrow> string \<Rightarrow> js_error + event list" where
  "handleUserCommand w text =
     (case split_spaces (trim text) of
        [] \<Rightarrow> Inl (Error ''TypeError: Cannot read properties of undefined'')
      | first # rest \<Rightarrow>
          (let command = toLowerCase first;
               argument = join '' '' rest
           in Inr
             (if command = ''showcurrentlogs'' then
                [ExecuteCommand ''devforge.runLogs'' [''server.log'']]
              else if command = ''/flow'' then [ExecuteCommand ''devforge.runFlow'' []]
              else if command = ''/test'' then [ExecuteCommand ''devforge.runTests'' [argument]]
              else if command = ''/help'' then postMessageToWebview w helpText
              else if command = ''/summary'' \<or> command = ''/analyze'' then
                [ExecuteCommand ''devforge.runSummary'' [argument]]
              else if command = ''/logs'' then
                [ExecuteCommand ''devforge.runLogs'' [or_else (Some argument) ''server.log'']]
              else if command = ''/env'' \<or> command = ''/environment'' then
                [ExecuteCommand ''devforge.runEnv'' [or_else (Some argument) ''default'']]
              else
                postMessageToWebview w
                  (''[DevForge] Unrecognized command: '' @ command
                   @ ''. Type **/help** for a list of commands.''))))"

subsection \<open>Reading a run\<close>

text \<open>
  A DisplayMessage is a \<open>PostMessage\<close> event; a remote call is an \<open>AxiosPost\<close>; the
  filesystem writes are \<open>MkdirSync\<close> and \<open>WriteFileSync\<close>; a subprocess is an \<open>Exec\<close>.
  The router starts a pipeline with \<open>ExecuteCommand\<close>.
\<close>

fun is_display :: "event \<Rightarrow> bool" where
  "is_display (PostMessage _) = True"
| "is_display _ = False"

fun is_remote_call :: "event \<Rightarrow> bool" where
  "is_remote_call (AxiosPost _ _) = True"
| "is_remote_call _ = False"

fun is_fs_write :: "event \<Rightarrow> bool" where
  "is_fs_write (MkdirSync _) = True"
| "is_fs_write (WriteFileSync _ _) = True"
| "is_fs_write _ = False"

fun is_exec :: "event \<Rightarrow> bool" where
  "is_exec (Exec _ _) = True"
| "is_exec _ = False"

definition display_count :: "event list \<Rightarrow> nat" where
  "display_count evs = length (filter is_display evs)"

text \<open>The verb of a command line: its first token, in lower case.\<close>

definition command_verb :: "string \<Rightarrow> string" where
  "command_verb text =
     (case split_spaces (trim text) of [] \<Rightarrow> [] | first # _ \<Rightarrow> toLowerCase first)"

text \<open>The argument of a command line: the other tokens, joined by single spaces.\<close>

definition command_argument :: "string \<Rightarrow> string" where
  "command_argument text =
     (case split_spaces (trim text) of [] \<Rightarrow> [] | _ # rest \<Rightarrow> join '' '' rest)"

text \<open>The \<open>case\<close> labels of the switch in \<open>handleUserCommand\<close>.\<close>

definition recognized_verbs :: "string list" where
  "recognized_verbs =
     [''showcurrentlogs'', ''/flow'', ''/test'', ''/help'', ''/summary'', ''/analyze'',
      ''/logs'', ''/env'', ''/environment'']"

subsection \<open>The context blob as the specification describes it\<close>

text \<open>
  A FileContextEntry is a relative path with the content of the file. The blob is the
  concatenation of the entries, each one a header that names the path followed by the
  raw content inside a fenced block.
\<close>

definition file_header :: "string \<Rightarrow> string" where
  "file_header relativePath = ''\<newline>\<newline>### FILE: '' @ relativePath @ '' ###''"

definition fenced_block :: "string \<Rightarrow> string" where
  "fenced_block content = ''\<newline>\<newline>```\<newline>'' @ content @ ''\<newline>```''"

definition context_blob :: "(string \<times> string) list \<Rightarrow> string" where
  "context_blob entries =
     concat (map (\<lambda>(relativePath, content). file_header relativePath @ fenced_block content)
               entries)"

subsection \<open>A sample project\<close>

text \<open>
  The project \<open>/proj\<close> with three files, \<open>a.js\<close> open in the editor, a remote service
  that answers every request, and a shell whose commands succeed.
\<close>

definition sample_files :: "string list" where
  "sample_files = [''/proj/a.js'', ''/proj/src/data.json.ts'', ''/proj/Makefile'']"

definition sample_world :: world where
  "sample_world =
     \<lparr>workspaceRoot = Some ''/proj'',
      activeTextEditor = Some ''/proj/a.js'',
      view = True,
      process_cwd = ''/'',
      existsSync = (\<lambda>p. p \<in> set (''/proj'' # sample_files)),
      readFileSync =
        (\<lambda>p. if p \<in> set sample_files then Inr ''let x = 1;''
             else Inl (Error ''ENOENT: no such file or directory'')),
      mkdirSync = (\<lambda>p. Inr ()),
      writeFileSync = (\<lambda>p c. Inr ()),
      axios_post = (\<lambda>url req. Inr (Some ''expect(x).toBe(1);'')),
      exec = (\<lambda>command cwd. \<lparr>error = None, stdout = ''1 passing'', stderr = []\<rparr>),
      workspace_search = (\<lambda>incl excl. Inr [''/proj/a.js'', ''/proj/src/data.json.ts''])\<rparr>"

text \<open>The same project when the webhook cannot be reached.\<close>

definition offline_world :: world where
  "offline_world = sample_world\<lparr>axios_post := (\<lambda>url req. Inl (Error ''Network Error''))\<rparr>"

text \<open>The same project when the service answers that it could not write a test.\<close>

definition refusing_world :: world where
  "refusing_world =
     sample_world\<lparr>axios_post := (\<lambda>url req. Inr (Some ''Test generation failed: empty file''))\<rparr>"

text \<open>The same project when no file matches the patterns of the flow analysis.\<close>

definition bare_world :: world where
  "bare_world = sample_world\<lparr>workspace_search := (\<lambda>incl excl. Inr [])\<rparr>"

section \<open>Properties\<close>

subsection \<open>Strings and paths\<close>

lemma split_spaces_not_Nil: "split_spaces s \<noteq> []"
  by (subst split_spaces.simps) (simp add: Let_def)

lemma split_spaces_empty: "split_spaces [] = [[]]"
  by (subst split_spaces.simps) simp

lemma trim_blank:
  assumes "\<forall>c\<in>set line. is_space c"
  shows "trim line = []"
proof -
  from assms have d: "dropWhile is_space line = []"
    by (rule dropWhile_eq_Nil_conv [THEN iffD2])
  show ?thesis unfolding trim_def d by simp
qed

lemma path_normalize_not_empty: "path_normalize p \<noteq> []"
  by (simp add: path_normalize_def Let_def)

lemma path_join_not_empty: "path_join args \<noteq> []"
  by (simp add: path_join_def Let_def path_normalize_not_empty)

lemma dropWhile_none: "\<forall>x\<in>set xs. \<not> P x \<Longrightarrow> dropWhile P xs = xs"
  by (cases xs) simp_all

lemma path_basename_plain:
  assumes "CHR ''/'' \<notin> set p"
  shows "path_basename p = p"
proof -
  from assms have no: "\<forall>c\<in>set (rev p). c \<noteq> CHR ''/''" by auto
  then have d: "dropWhile (\<lambda>c. c = CHR ''/'') (rev p) = rev p"
    by (intro dropWhile_none) simp
  from no have t: "takeWhile (\<lambda>c. c \<noteq> CHR ''/'') (rev p) = rev p"
    by (intro takeWhile_eq_all_conv [THEN iffD2]) simp
  show ?thesis unfolding path_basename_def d t by simp
qed

lemma first_alternative_None:
  "\<forall>a\<in>set alts. \<not> prefix a s \<Longrightarrow> first_alternative alts s = None"
  by (induction alts) simp_all

lemma replace_first_no_match:
  "\<forall>a\<in>set alts. \<not> sublist a s \<Longrightarrow> replace_first alts f s = s"
proof (induction s)
  case Nil
  then have "\<forall>a\<in>set alts. \<not> prefix a []" by auto
  then show ?case by (simp add: first_alternative_None)
next
  case (Cons c cs)
  from Cons.prems have p: "\<forall>a\<in>set alts. \<not> prefix a (c # cs)"
    using prefix_imp_sublist by blast
  from Cons.prems have "\<forall>a\<in>set alts. \<not> sublist a cs"
    by (auto simp: sublist_Cons_right)
  then have "replace_first alts f cs = cs" by (rule Cons.IH)
  then show ?case by (simp add: first_alternative_None [OF p])
qed

lemma replace_first_after_plain_stem:
  assumes "CHR ''.'' \<notin> set stem"
  shows "replace_first [''.js'', ''.ts'', ''.jsx'', ''.tsx''] f (stem @ rest) =
           stem @ replace_first [''.js'', ''.ts'', ''.jsx'', ''.tsx''] f rest"
  using assms by (induction stem) auto

subsection \<open>Counting DisplayMessages\<close>

lemma display_count_Nil: "display_count [] = 0"
  by (simp add: display_count_def)

lemma display_count_Cons:
  "display_count (e # evs) = (if is_display e then Suc (display_count evs) else display_count evs)"
  by (simp add: display_count_def)

lemma display_count_append: "display_count (xs @ ys) = display_count xs + display_count ys"
  by (simp add: display_count_def)

lemmas display_count_simps = display_count_Nil display_count_Cons display_count_append

lemma display_count_post: "view w \<Longrightarrow> display_count (postMessageToWebview w m) = 1"
  by (simp add: display_count_def postMessageToWebview_def)

lemma display_count_summary_catch: "view w \<Longrightarrow> display_count (summary_catch w e) = 1"
  by (simp add: summary_catch_def display_count_simps display_count_post)

lemma display_count_flow_catch: "view w \<Longrightarrow> display_count (flow_catch w e) = 1"
  by (simp add: flow_catch_def display_count_simps display_count_post)

lemma display_count_reads: "display_count (fst (build_context w root uris acc)) = 0"
  by (induction uris arbitrary: acc)
     (simp_all add: display_count_simps case_prod_unfold split: sum.split)

lemma display_count_save_test: "display_count (fst (save_test w targetPath code)) = 0"
  by (simp add: save_test_def Let_def display_count_simps split: option.split sum.split)

subsection \<open>The router\<close>

text \<open>\<open>parts[0]\<close> is always defined, so the router never throws.\<close>

lemma handleUserCommand_returns: "\<exists>evs. handleUserCommand w line = Inr evs"
  using split_spaces_not_Nil [of "trim line"]
  by (cases "split_spaces (trim line)") (simp_all add: handleUserCommand_def Let_def)

text \<open>
  Claim C7. A command line whose verb (the first token, in lower case) is none of the
  recognized verbs makes the router post exactly one DisplayMessage and start no
  pipeline; the message contains the verb and the hint \<open>/help\<close>.
\<close>

theorem unrecognized_verb_message:
  assumes "view w" and "command_verb line \<notin> set recognized_verbs"
  shows "handleUserCommand w line =
           Inr [PostMessage (''[DevForge] Unrecognized command: '' @ command_verb line
                             @ ''. Type **/help** for a list of commands.'')]
         \<and> str_includes (''[DevForge] Unrecognized command: '' @ command_verb line
                             @ ''. Type **/help** for a list of commands.'') (command_verb line)
         \<and> str_includes (''[DevForge] Unrecognized command: '' @ command_verb line
                             @ ''. Type **/help** for a list of commands.'') ''/help''"
proof (intro conjI)
  obtain first rest where s: "split_spaces (trim line) = first # rest"
    using split_spaces_not_Nil [of "trim line"] by (cases "split_spaces (trim line)") auto
  with assms(2) have "toLowerCase first \<notin> set recognized_verbs"
    by (simp add: command_verb_def)
  then show "handleUserCommand w line =
           Inr [PostMessage (''[DevForge] Unrecognized command: '' @ command_verb line
                             @ ''. Type **/help** for a list of commands.'')]"
    using assms(1) s
    by (simp add: handleUserCommand_def command_verb_def recognized_verbs_def Let_def
        postMessageToWebview_def)
next
  show "str_includes (''[DevForge] Unrecognized command: '' @ command_verb line
                             @ ''. Type **/help** for a list of commands.'') (command_verb line)"
    unfolding str_includes_def by (rule sublist_appendI)
next
  have "sublist ''/help''
          ((''[DevForge] Unrecognized command: '' @ command_verb line @ ''. Type **'')
           @ ''/help'' @ ''** for a list of commands.'')"
    by (rule sublist_appendI)
  then show "str_includes (''[DevForge] Unrecognized command: '' @ command_verb line
                             @ ''. Type **/help** for a list of commands.'') ''/help''"
    by (simp add: str_includes_def)
qed

theorem unrecognized_verb_message_witness:
  "view sample_world \<and> command_verb ''FooBar x'' \<notin> set recognized_verbs
   \<and> handleUserCommand sample_world ''FooBar x'' =
       Inr [PostMessage
              ''[DevForge] Unrecognized command: foobar. Type **/help** for a list of commands.'']"
proof -
  have h1: "view sample_world" by code_simp
  have h2: "command_verb ''FooBar x'' \<notin> set recognized_verbs" by code_simp
  have v: "command_verb ''FooBar x'' = ''foobar''" by code_simp
  from unrecognized_verb_message [OF h1 h2] h1 h2 show ?thesis by (simp add: v)
qed

text \<open>
  Claim C10. An input line that is empty or all white space takes the default branch
  of the router: exactly one DisplayMessage, the unrecognized-command message with an
  empty verb, and no pipeline is started.
\<close>

theorem blank_line_unrecognized:
  assumes "view w" and "\<forall>c\<in>set line. is_space c"
  shows "handleUserCommand w line =
           Inr [PostMessage
                  ''[DevForge] Unrecognized command: . Type **/help** for a list of commands.'']"
  using assms
  by (simp add: handleUserCommand_def trim_blank split_spaces_empty toLowerCase_def
      postMessageToWebview_def)

theorem blank_line_unrecognized_witness:
  "view sample_world \<and> list_all is_space ''   '' \<and>
   handleUserCommand sample_world ''   '' =
     Inr [PostMessage
            ''[DevForge] Unrecognized command: . Type **/help** for a list of commands.'']"
proof -
  have v: "view sample_world" by (simp add: sample_world_def)
  have b: "\<forall>c\<in>set ''   ''. is_space c" by (simp add: is_space_def)
  from blank_line_unrecognized [OF v b] v b show ?thesis by (simp add: list_all_iff)
qed

subsection \<open>Every pipeline ends with a message\<close>

text \<open>
  The environment, summary, log and flow handlers always resolve, and with the view in
  place each posts exactly one DisplayMessage, whatever the collaborators return.
\<close>

lemma runEnv_one_message:
  "snd (runEnv w envName) = Resolved
   \<and> (view w \<longrightarrow> display_count (fst (runEnv w envName)) = 1)"
  by (simp add: runEnv_def display_count_simps display_count_post)

lemma runSummary_one_message:
  "snd (runSummary w filePath) = Resolved
   \<and> (view w \<longrightarrow> display_count (fst (runSummary w filePath)) = 1)"
  by (simp add: runSummary_def summary_not_found_def Let_def display_count_simps
      display_count_post display_count_summary_catch split: option.split sum.split)

lemma runLogs_one_message:
  "snd (runLogs w fileName) = Resolved
   \<and> (view w \<longrightarrow> display_count (fst (runLogs w fileName)) = 1)"
  by (simp add: runLogs_def logs_callback_def display_count_simps display_count_post)

lemma runFlow_one_message:
  "snd (runFlow w) = Resolved \<and> (view w \<longrightarrow> display_count (fst (runFlow w)) = 1)"
proof (cases "truthy (workspaceRoot w)")
  case False
  then show ?thesis by (simp add: runFlow_def display_count_post)
next
  case root: True
  let ?root = "template (workspaceRoot w)"
  let ?found = "findFiles w flow_globPattern ''**/node_modules/**'' MAX_CONTEXT_FILES"
  show ?thesis
  proof (cases ?found)
    case (Inl e)
    with root show ?thesis
      by (simp add: runFlow_def display_count_simps display_count_flow_catch)
  next
    case (Inr fileUris)
    have reads: "display_count (fst (build_context w ?root fileUris [])) = 0"
      by (rule display_count_reads)
    show ?thesis
    proof (cases "build_context w ?root fileUris []")
      case (Pair evs r)
      with reads have evs: "display_count evs = 0" by simp
      from root Inr Pair evs show ?thesis
        by (simp add: runFlow_def Let_def display_count_simps display_count_post
            display_count_flow_catch split: sum.split)
    qed
  qed
qed

text \<open>
  The test handler does the same from the point where the generated code is in hand:
  one message when saving fails, two when the tests are run.
\<close>

lemma save_and_execute_messages:
  "snd (save_and_execute w targetPath code) = Resolved
   \<and> (view w \<longrightarrow> 1 \<le> display_count (fst (save_and_execute w targetPath code))
               \<and> display_count (fst (save_and_execute w targetPath code)) \<le> 2)"
proof (cases "save_test w targetPath code")
  case (Pair saving thrown)
  with display_count_save_test [of w targetPath code] have "display_count saving = 0" by simp
  with Pair show ?thesis
    by (cases thrown)
       (simp_all add: save_and_execute_def tests_callback_def Let_def display_count_simps
          display_count_post)
qed

text \<open>
  Before that point its file read and its remote call stand outside any \<open>try\<close>: a
  failure of either rejects the promise of the handler, and nothing is posted.
\<close>

lemma runTests_rejects_on_read_failure:
  assumes "existsSync w (tests_targetPath w filePath)"
    and "readFileSync w (tests_targetPath w filePath) = Inl e"
  shows "snd (runTests w filePath) = Rejected e
         \<and> display_count (fst (runTests w filePath)) = 0"
  using assms
  by (simp add: runTests_def Let_def tests_targetPath_def path_join_not_empty display_count_def)

lemma runTests_rejects_on_remote_failure:
  assumes "existsSync w (tests_targetPath w filePath)"
    and "readFileSync w (tests_targetPath w filePath) = Inr content"
    and "axios_post w N8N_WEBHOOK_URL
           (Generate_test (path_basename (tests_targetPath w filePath)) content) = Inl e"
  shows "snd (runTests w filePath) = Rejected e
         \<and> display_count (fst (runTests w filePath)) = 0"
  using assms
  by (simp add: runTests_def Let_def tests_targetPath_def path_join_not_empty display_count_def)

text \<open>Whenever the test handler resolves, it has posted one or two messages.\<close>

lemma runTests_messages_when_resolved:
  assumes "view w" and "snd (runTests w filePath) = Resolved"
  shows "1 \<le> display_count (fst (runTests w filePath))
         \<and> display_count (fst (runTests w filePath)) \<le> 2"
proof -
  let ?t = "tests_targetPath w filePath"
  show ?thesis
  proof (cases "?t = [] \<or> \<not> existsSync w ?t")
    case True
    with assms(1) show ?thesis
      by (simp add: runTests_def Let_def display_count_post)
  next
    case found: False
    show ?thesis
    proof (cases "readFileSync w ?t")
      case (Inl e)
      with found assms(2) show ?thesis by (simp add: runTests_def Let_def)
    next
      case (Inr content)
      show ?thesis
      proof (cases "axios_post w N8N_WEBHOOK_URL (Generate_test (path_basename ?t) content)")
        case (Inl e)
        with found Inr assms(2) show ?thesis by (simp add: runTests_def Let_def)
      next
        case answered: (Inr generatedTest)
        show ?thesis
        proof (cases "generation_failed generatedTest")
          case True
          with found Inr answered assms(1) show ?thesis
            by (simp add: runTests_def Let_def display_count_simps display_count_post
                split: option.split)
        next
          case False
          then obtain code where code: "generatedTest = Some code"
            by (cases generatedTest) (simp_all add: generation_failed_def)
          from save_and_execute_messages [of w ?t code] assms(1)
          have "1 \<le> display_count (fst (save_and_execute w ?t code))
                \<and> display_count (fst (save_and_execute w ?t code)) \<le> 2" by simp
          with found Inr answered False code show ?thesis
            by (simp add: runTests_def Let_def display_count_simps case_prod_unfold)
        qed
      qed
    qed
  qed
qed

text \<open>
  Claim C1. Every pipeline invocation posts one or two DisplayMessages and lets no
  exception escape, whether its remote call, file read, file write or subprocess
  succeeds or fails. The test handler breaks this: in the sample project with the
  webhook out of reach, \<open>/test a.js\<close> is rejected with the network error and posts
  nothing, where \<open>/summary a.js\<close> catches the same error and reports it.
\<close>

theorem runTests_remote_failure_escapes:
  "runTests offline_world ''a.js'' =
     ([ShowInformationMessage ''[DevForge] Generating test for: a.js...'',
       ReadFileSync ''/proj/a.js'',
       AxiosPost N8N_WEBHOOK_URL (Generate_test ''a.js'' ''let x = 1;'')],
      Rejected (Error ''Network Error''))
   \<and> display_count (fst (runTests offline_world ''a.js'')) = 0
   \<and> runSummary offline_world ''a.js'' =
     ([ShowInformationMessage ''[DevForge] Sending file to n8n agent for analysis: a.js...'',
       ReadFileSync ''/proj/a.js'',
       AxiosPost N8N_WEBHOOK_URL (Summarize ''a.js'' ''let x = 1;''),
       PostMessage
         ''[DevForge] Agent integration failed (Check N8N/API). Error: Network Error'',
       ConsoleError ''n8n Agent Integration Error:'' (Error ''Network Error'')],
      Resolved)"
  by code_simp

subsection \<open>Locating the target file\<close>

lemma runSummary_not_found:
  assumes "view w"
    and "summary_targetPath w filePath = None
         \<or> (\<exists>t. summary_targetPath w filePath = Some t \<and> \<not> existsSync w t)"
  shows "runSummary w filePath =
           ([PostMessage (''[DevForge] ERROR: File not found or invalid path provided: ''
                          @ or_else (Some filePath) ''No active file'' @ ''.'')], Resolved)"
  using assms
  by (auto simp: runSummary_def summary_not_found_def postMessageToWebview_def)

lemma runTests_not_found:
  assumes "view w" and "\<not> existsSync w (tests_targetPath w filePath)"
  shows "runTests w filePath =
           ([PostMessage (''[DevForge] ERROR: File not found: ''
                          @ or_else (Some filePath) ''No active file'' @ ''.'')], Resolved)"
  using assms by (simp add: runTests_def Let_def postMessageToWebview_def)

text \<open>
  Without an argument the test handler joins the path of the active file, which is
  absolute, onto the project root.
\<close>

lemma tests_targetPath_active_file:
  assumes "workspaceRoot w = Some root" and "root \<noteq> []"
    and "activeTextEditor w = Some active" and "active \<noteq> []"
  shows "tests_targetPath w [] = path_normalize (root @ ''/'' @ active)"
  using assms by (simp add: tests_targetPath_def or_else_def path_join_def)

text \<open>
  Claim C4. The summary and the test handler take the file from the argument, resolved
  against the project root, or else from the active editor, and report "file not found"
  without a remote call when neither exists. The test handler breaks the second step:
  in the sample project, with \<open>/proj/a.js\<close> open and on disk, \<open>/test\<close> looks for
  \<open>/proj/proj/a.js\<close> and reports that no file was found, where \<open>/summary\<close> sends
  \<open>a.js\<close> to the service.
\<close>

theorem runTests_ignores_active_file:
  "activeTextEditor sample_world = Some ''/proj/a.js''
   \<and> existsSync sample_world ''/proj/a.js''
   \<and> tests_targetPath sample_world [] = ''/proj/proj/a.js''
   \<and> runTests sample_world [] =
       ([PostMessage ''[DevForge] ERROR: File not found: No active file.''], Resolved)
   \<and> summary_targetPath sample_world [] = Some ''/proj/a.js''
   \<and> filter is_remote_call (fst (runSummary sample_world [])) =
       [AxiosPost N8N_WEBHOOK_URL (Summarize ''a.js'' ''let x = 1;'')]"
  by code_simp

subsection \<open>Generate and verify\<close>

text \<open>
  Claim C2. When the file is found and read and the service answers, and the answer has
  no text or a text that contains \<open>failed\<close>, the handler posts the generation-failure
  message with the returned text as its only DisplayMessage and stops: no directory is
  made, no file is written and the test command is not run.
\<close>

theorem generation_failure_stops:
  assumes "view w"
    and "existsSync w (tests_targetPath w filePath)"
    and "readFileSync w (tests_targetPath w filePath) = Inr content"
    and "axios_post w N8N_WEBHOOK_URL
           (Generate_test (path_basename (tests_targetPath w filePath)) content) = Inr generatedTest"
    and "generatedTest = None \<or> (\<exists>code. generatedTest = Some code \<and> str_includes code ''failed'')"
  shows "runTests w filePath =
           ([ShowInformationMessage
               (''[DevForge] Generating test for: ''
                @ path_basename (tests_targetPath w filePath) @ ''...''),
             ReadFileSync (tests_targetPath w filePath),
             AxiosPost N8N_WEBHOOK_URL
               (Generate_test (path_basename (tests_targetPath w filePath)) content),
             PostMessage
               (''**AI Test Generation Failed.** Output:\<newline>\<newline>'' @ template generatedTest)],
            Resolved)
         \<and> str_includes
             (''**AI Test Generation Failed.** Output:\<newline>\<newline>'' @ template generatedTest)
             (template generatedTest)
         \<and> filter is_fs_write (fst (runTests w filePath)) = []
         \<and> filter is_exec (fst (runTests w filePath)) = []
         \<and> display_count (fst (runTests w filePath)) = 1"
proof -
  let ?t = "tests_targetPath w filePath"
  have ne: "?t \<noteq> []" by (simp add: tests_targetPath_def path_join_not_empty)
  have failed: "generation_failed generatedTest"
    using assms(5) by (auto simp: generation_failed_def)
  have run: "runTests w filePath =
           ([ShowInformationMessage
               (''[DevForge] Generating test for: '' @ path_basename ?t @ ''...''),
             ReadFileSync ?t,
             AxiosPost N8N_WEBHOOK_URL (Generate_test (path_basename ?t) content),
             PostMessage
               (''**AI Test Generation Failed.** Output:\<newline>\<newline>'' @ template generatedTest)],
            Resolved)"
    using assms(1-4) ne failed
    by (simp add: runTests_def Let_def postMessageToWebview_def split: option.split)
  have inc: "str_includes
             (''**AI Test Generation Failed.** Output:\<newline>\<newline>'' @ template generatedTest)
             (template generatedTest)"
    unfolding str_includes_def by (rule sublist_append_leftI)
  show ?thesis
    unfolding run using inc by (simp add: display_count_def)
qed

theorem generation_failure_stops_witness:
  "view refusing_world
   \<and> existsSync refusing_world ''/proj/a.js''
   \<and> readFileSync refusing_world ''/proj/a.js'' = Inr ''let x = 1;''
   \<and> str_includes ''Test generation failed: empty file'' ''failed''
   \<and> runTests refusing_world ''a.js'' =
       ([ShowInformationMessage ''[DevForge] Generating test for: a.js...'',
         ReadFileSync ''/proj/a.js'',
         AxiosPost N8N_WEBHOOK_URL (Generate_test ''a.js'' ''let x = 1;''),
         PostMessage
           ''**AI Test Generation Failed.** Output:\<newline>\<newline>Test generation failed: empty file''],
        Resolved)"
proof -
  have p: "tests_targetPath refusing_world ''a.js'' = ''/proj/a.js''" by code_simp
  have b: "path_basename ''/proj/a.js'' = ''a.js''" by code_simp
  have h1: "view refusing_world" by code_simp
  have h2: "existsSync refusing_world (tests_targetPath refusing_world ''a.js'')" by code_simp
  have h3: "readFileSync refusing_world (tests_targetPath refusing_world ''a.js'')
              = Inr ''let x = 1;''" by code_simp
  have h4: "axios_post refusing_world N8N_WEBHOOK_URL
              (Generate_test (path_basename (tests_targetPath refusing_world ''a.js''))
                 ''let x = 1;'') = Inr (Some ''Test generation failed: empty file'')"
    by code_simp
  have h5: "str_includes ''Test generation failed: empty file'' ''failed''" by code_simp
  have h5': "Some ''Test generation failed: empty file'' = None
       \<or> (\<exists>code. Some ''Test generation failed: empty file'' = Some code
                \<and> str_includes code ''failed'')"
    using h5 by simp
  from generation_failure_stops [OF h1 h2 h3 h4 h5'] h1 h2 h3 h5
  show ?thesis by (simp add: p b template_def)
qed

subsection \<open>The name of the test file\<close>

text \<open>The two examples of the specification, and every name with a single dot.\<close>

lemma testFilename_examples:
  "testFilename ''foo.js'' = ''foo.test.js''"
  "testFilename ''bar.component.tsx'' = ''bar.component.test.tsx''"
  by code_simp+

lemma testFilename_simple_name:
  assumes "CHR ''.'' \<notin> set stem" and "CHR ''/'' \<notin> set stem"
    and "ext \<in> set [''.js'', ''.ts'', ''.jsx'', ''.tsx'']"
  shows "testFilename (stem @ ext) = stem @ ''.test'' @ ext"
proof -
  from assms(2,3) have "CHR ''/'' \<notin> set (stem @ ext)" by auto
  then have "path_basename (stem @ ext) = stem @ ext" by (rule path_basename_plain)
  moreover from assms(3) have
    "replace_first [''.js'', ''.ts'', ''.jsx'', ''.tsx''] (\<lambda>m. ''.test'' @ m) ext = ''.test'' @ ext"
    by auto
  ultimately show ?thesis
    by (simp add: testFilename_def replace_first_after_plain_stem [OF assms(1)])
qed

text \<open>
  Claim C3. For a source file whose name ends in \<open>.js\<close>, \<open>.ts\<close>, \<open>.jsx\<close> or \<open>.tsx\<close> the
  marker \<open>.test\<close> goes immediately before the extension, and the code is written under
  \<open>tests/\<close>. The regular expression has no anchor, so the marker goes before the first
  \<open>.js\<close> or \<open>.ts\<close> of the name instead: \<open>data.json.ts\<close> is saved as
  \<open>data.test.json.ts\<close>, not as \<open>data.json.test.ts\<close>.
\<close>

theorem testFilename_marker_misplaced:
  "testFilename ''/proj/src/data.json.ts'' = ''data.test.json.ts''
   \<and> WriteFileSync ''/proj/tests/data.test.json.ts'' ''expect(x).toBe(1);''
        \<in> set (fst (runTests sample_world ''src/data.json.ts''))"
  by code_simp

lemma save_test_writes:
  assumes "mkdirSync w (path_join [or_else (workspaceRoot w) [], ''tests'']) = Inr ()"
  shows "WriteFileSync (testFilePath w targetPath) code \<in> set (fst (save_test w targetPath code))"
  using assms
  by (cases "workspaceRoot w") (simp_all add: save_test_def Let_def or_else_def)

lemma save_and_execute_events:
  "set (fst (save_test w targetPath code)) \<subseteq> set (fst (save_and_execute w targetPath code))"
  by (cases "save_test w targetPath code"; cases "snd (save_test w targetPath code)")
     (auto simp: save_and_execute_def)

lemma runTests_reaches_save:
  assumes "existsSync w (tests_targetPath w filePath)"
    and "readFileSync w (tests_targetPath w filePath) = Inr content"
    and "axios_post w N8N_WEBHOOK_URL
           (Generate_test (path_basename (tests_targetPath w filePath)) content) = Inr (Some code)"
    and "\<not> generation_failed (Some code)"
  shows "set (fst (save_and_execute w (tests_targetPath w filePath) code))
           \<subseteq> set (fst (runTests w filePath))"
proof -
  have ne: "tests_targetPath w filePath \<noteq> []"
    by (simp add: tests_targetPath_def path_join_not_empty)
  show ?thesis
    using assms ne
    by (cases "save_and_execute w (tests_targetPath w filePath) code")
       (auto simp: runTests_def Let_def)
qed

text \<open>
  Claim C9. When the name of the source file contains none of \<open>.js\<close>, \<open>.ts\<close>, \<open>.jsx\<close>,
  \<open>.tsx\<close>, the name of the test file is the name of the source file, unchanged, and the
  generated code is written under \<open>tests/\<close> at that name.
\<close>

theorem unmarked_name_kept:
  assumes "existsSync w (tests_targetPath w filePath)"
    and "readFileSync w (tests_targetPath w filePath) = Inr content"
    and "axios_post w N8N_WEBHOOK_URL
           (Generate_test (path_basename (tests_targetPath w filePath)) content) = Inr (Some code)"
    and "\<not> generation_failed (Some code)"
    and "mkdirSync w (path_join [or_else (workspaceRoot w) [], ''tests'']) = Inr ()"
    and "\<forall>ext\<in>set [''.js'', ''.ts'', ''.jsx'', ''.tsx''].
            \<not> str_includes (path_basename (tests_targetPath w filePath)) ext"
  shows "testFilename (tests_targetPath w filePath) = path_basename (tests_targetPath w filePath)
         \<and> WriteFileSync
              (path_join [or_else (workspaceRoot w) [], ''tests'',
                          path_basename (tests_targetPath w filePath)])
              code
            \<in> set (fst (runTests w filePath))"
proof -
  let ?t = "tests_targetPath w filePath"
  from assms(6) have "\<forall>a\<in>set [''.js'', ''.ts'', ''.jsx'', ''.tsx'']. \<not> sublist a (path_basename ?t)"
    by (simp add: str_includes_def)
  then have name: "testFilename ?t = path_basename ?t"
    unfolding testFilename_def by (rule replace_first_no_match)
  have "WriteFileSync (testFilePath w ?t) code \<in> set (fst (save_test w ?t code))"
    using assms(5) by (rule save_test_writes)
  then have "WriteFileSync (testFilePath w ?t) code \<in> set (fst (runTests w filePath))"
    using save_and_execute_events runTests_reaches_save [OF assms(1-4)] by blast
  then show ?thesis by (simp add: name testFilePath_def)
qed

theorem unmarked_name_kept_witness:
  "existsSync sample_world ''/proj/Makefile''
   \<and> \<not> str_includes ''Makefile'' ''.js'' \<and> \<not> str_includes ''Makefile'' ''.ts''
   \<and> testFilename ''/proj/Makefile'' = ''Makefile''
   \<and> WriteFileSync ''/proj/tests/Makefile'' ''expect(x).toBe(1);''
        \<in> set (fst (runTests sample_world ''Makefile''))"
proof -
  have p: "tests_targetPath sample_world ''Makefile'' = ''/proj/Makefile''" by code_simp
  have b: "path_basename ''/proj/Makefile'' = ''Makefile''" by code_simp
  have j: "path_join [or_else (workspaceRoot sample_world) [], ''tests'', ''Makefile'']
             = ''/proj/tests/Makefile''" by code_simp
  have h1: "existsSync sample_world (tests_targetPath sample_world ''Makefile'')" by code_simp
  have h2: "readFileSync sample_world (tests_targetPath sample_world ''Makefile'')
              = Inr ''let x = 1;''" by code_simp
  have h3: "axios_post sample_world N8N_WEBHOOK_URL
              (Generate_test (path_basename (tests_targetPath sample_world ''Makefile''))
                 ''let x = 1;'') = Inr (Some ''expect(x).toBe(1);'')" by code_simp
  have h4: "\<not> generation_failed (Some ''expect(x).toBe(1);'')" by code_simp
  have h5: "mkdirSync sample_world (path_join [or_else (workspaceRoot sample_world) [], ''tests''])
              = Inr ()" by code_simp
  have n1: "\<not> str_includes ''Makefile'' ''.js''" by code_simp
  have n2: "\<not> str_includes ''Makefile'' ''.ts''" by code_simp
  have n3: "\<not> str_includes ''Makefile'' ''.jsx''" by code_simp
  have n4: "\<not> str_includes ''Makefile'' ''.tsx''" by code_simp
  have h6: "\<forall>ext\<in>set [''.js'', ''.ts'', ''.jsx'', ''.tsx''].
              \<not> str_includes (path_basename (tests_targetPath sample_world ''Makefile'')) ext"
    using n1 n2 n3 n4 by (simp add: p b)
  from unmarked_name_kept [OF h1 h2 h3 h4 h5 h6] h1 n1 n2
  show ?thesis by (simp add: p b j)
qed

subsection \<open>Flow analysis\<close>

text \<open>
  Claim C5. When the search of the workspace returns no file, the flow analysis posts
  the message that no relevant source file was found and makes no remote call.
\<close>

theorem flow_without_files:
  assumes "view w" and "truthy (workspaceRoot w)"
    and "findFiles w flow_globPattern ''**/node_modules/**'' MAX_CONTEXT_FILES = Inr []"
  shows "runFlow w =
           ([ShowInformationMessage ''[DevForge] Analyzing project flow across multiple files...'',
             FindFiles flow_globPattern ''**/node_modules/**'' MAX_CONTEXT_FILES,
             PostMessage ''[DevForge] Could not find relevant source files in the project.''],
            Resolved)
         \<and> filter is_remote_call (fst (runFlow w)) = []"
  using assms by (simp add: runFlow_def Let_def postMessageToWebview_def)

theorem flow_without_files_witness:
  "view bare_world \<and> truthy (workspaceRoot bare_world)
   \<and> findFiles bare_world flow_globPattern ''**/node_modules/**'' MAX_CONTEXT_FILES = Inr []
   \<and> runFlow bare_world =
        ([ShowInformationMessage ''[DevForge] Analyzing project flow across multiple files...'',
          FindFiles flow_globPattern ''**/node_modules/**'' MAX_CONTEXT_FILES,
          PostMessage ''[DevForge] Could not find relevant source files in the project.''],
         Resolved)
   \<and> filter is_remote_call (fst (runFlow bare_world)) = []"
proof -
  have h1: "view bare_world" by code_simp
  have h2: "truthy (workspaceRoot bare_world)" by code_simp
  have h3: "findFiles bare_world flow_globPattern ''**/node_modules/**'' MAX_CONTEXT_FILES = Inr []"
    by code_simp
  from flow_without_files [OF h1 h2 h3] h1 h2 h3 show ?thesis by blast
qed

lemma findFiles_capped: "findFiles w incl excl n = Inr uris \<Longrightarrow> length uris \<le> n"
  by (auto simp: findFiles_def split: sum.splits)

lemma build_context_reads:
  assumes "\<forall>uri\<in>set uris. readFileSync w uri = Inr (contents uri)"
  shows "build_context w root uris acc =
           (map ReadFileSync uris,
            Inr (acc @ context_blob
                         (map (\<lambda>uri. (path_relative (process_cwd w) root uri, contents uri)) uris)))"
  using assms
proof (induction uris arbitrary: acc)
  case Nil
  show ?case by (simp add: context_blob_def)
next
  case (Cons uri uris)
  from Cons.prems have r: "readFileSync w uri = Inr (contents uri)"
    and rest: "\<forall>u\<in>set uris. readFileSync w u = Inr (contents u)" by simp_all
  show ?case
    by (simp add: r Cons.IH [OF rest] context_blob_def context_entry_def file_header_def
        fenced_block_def)
qed

lemma no_remote_call_in_reads: "filter is_remote_call (map ReadFileSync uris) = []"
  by (induction uris) simp_all

lemma no_remote_call_in_post: "filter is_remote_call (postMessageToWebview w m) = []"
  by (simp add: postMessageToWebview_def)

lemma no_remote_call_in_flow_catch: "filter is_remote_call (flow_catch w e) = []"
  by (simp add: flow_catch_def no_remote_call_in_post)

text \<open>
  Claim C6. When the search returns N files, N is between 1 and 8, and every file can
  be read, the loop builds the context blob of the N entries in the order of discovery:
  each entry is the header naming the path of the file relative to the project root,
  followed by the content of the file in a fenced block. That blob is what the one
  remote call of the run carries.
\<close>

theorem flow_context_blob:
  assumes "truthy (workspaceRoot w)"
    and "findFiles w flow_globPattern ''**/node_modules/**'' MAX_CONTEXT_FILES = Inr fileUris"
    and "fileUris \<noteq> []"
    and "\<forall>uri\<in>set fileUris. readFileSync w uri = Inr (contents uri)"
    and "entries =
           map (\<lambda>uri. (path_relative (process_cwd w) (template (workspaceRoot w)) uri,
                       contents uri)) fileUris"
  shows "length fileUris \<le> 8
         \<and> length entries = length fileUris
         \<and> map fst entries =
             map (path_relative (process_cwd w) (template (workspaceRoot w))) fileUris
         \<and> build_context w (template (workspaceRoot w)) fileUris [] =
             (map ReadFileSync fileUris, Inr (context_blob entries))
         \<and> filter is_remote_call (fst (runFlow w)) =
             [AxiosPost N8N_WEBHOOK_URL
                (Flow_analysis (context_blob entries)
                   (path_basename (template (workspaceRoot w))))]"
proof -
  let ?root = "template (workspaceRoot w)"
  have cap: "length fileUris \<le> 8"
    using findFiles_capped [OF assms(2)] by (simp add: MAX_CONTEXT_FILES_def)
  have built: "build_context w ?root fileUris [] =
                 (map ReadFileSync fileUris, Inr (context_blob entries))"
    using build_context_reads [OF assms(4), of ?root "[]"] by (simp add: assms(5))
  have len: "length fileUris \<noteq> 0" using assms(3) by simp
  have calls: "filter is_remote_call (fst (runFlow w)) =
             [AxiosPost N8N_WEBHOOK_URL
                (Flow_analysis (context_blob entries) (path_basename ?root))]"
    using assms(1) len
    by (simp add: runFlow_def Let_def assms(2) built no_remote_call_in_reads
        no_remote_call_in_post no_remote_call_in_flow_catch split: sum.split)
  show ?thesis using cap built calls by (simp add: assms(5) comp_def)
qed

theorem flow_context_blob_witness:
  "truthy (workspaceRoot sample_world)
   \<and> findFiles sample_world flow_globPattern ''**/node_modules/**'' MAX_CONTEXT_FILES
       = Inr [''/proj/a.js'', ''/proj/src/data.json.ts'']
   \<and> filter is_remote_call (fst (runFlow sample_world)) =
       [AxiosPost N8N_WEBHOOK_URL
          (Flow_analysis
             (context_blob [(''a.js'', ''let x = 1;''), (''src/data.json.ts'', ''let x = 1;'')])
             ''proj'')]"
proof -
  have h1: "truthy (workspaceRoot sample_world)" by code_simp
  have h2: "findFiles sample_world flow_globPattern ''**/node_modules/**'' MAX_CONTEXT_FILES
              = Inr [''/proj/a.js'', ''/proj/src/data.json.ts'']" by code_simp
  have h3: "[''/proj/a.js'', ''/proj/src/data.json.ts''] \<noteq> []" by simp
  have r1: "readFileSync sample_world ''/proj/a.js'' = Inr ''let x = 1;''" by code_simp
  have r2: "readFileSync sample_world ''/proj/src/data.json.ts'' = Inr ''let x = 1;''" by code_simp
  have h4: "\<forall>uri\<in>set [''/proj/a.js'', ''/proj/src/data.json.ts''].
              readFileSync sample_world uri = Inr ((\<lambda>_. ''let x = 1;'') uri)"
    using r1 r2 by simp
  have e1: "path_relative (process_cwd sample_world) (template (workspaceRoot sample_world))
              ''/proj/a.js'' = ''a.js''" by code_simp
  have e2: "path_relative (process_cwd sample_world) (template (workspaceRoot sample_world))
              ''/proj/src/data.json.ts'' = ''src/data.json.ts''" by code_simp
  have b: "path_basename (template (workspaceRoot sample_world)) = ''proj''" by code_simp
  from flow_context_blob [OF h1 h2 h3 h4 refl] h1 h2
  show ?thesis by (simp add: e1 e2 b)
qed

subsection \<open>Log tail\<close>

text \<open>
  Claim C8. \<open>/logs\<close> starts the log handler on the file named by the argument, or on
  \<open>server.log\<close> without one. The handler runs \<open>tail -n 10\<close> on the file with the project
  root as working directory. If the command fails or writes to its error stream, the
  one DisplayMessage is the failure message, which contains the file name and the text
  of the error; otherwise it is the standard output in a fenced block under a heading
  that names the file.
\<close>

theorem log_tail:
  assumes "view w" and "truthy (workspaceRoot w)"
    and "command_verb line = ''/logs''"
    and "r = exec w (''tail -n 10 '' @ fileName) (workspaceRoot w)"
    and "failure = ''[ERROR] Could not read log file '' @ [CHR 0x27] @ fileName @ [CHR 0x27]
                   @ ''. Check file existence in project root. Shell Error: ''
                   @ or_else (map_option message (error r)) (stderr r)"
    and "snapshot = ''**Log Snapshot for '' @ fileName @ '' (Last 10 lines):**\<newline>''
                    @ ''```\<newline>'' @ stdout r @ ''\<newline>```''"
  shows "handleUserCommand w line =
           Inr [ExecuteCommand ''devforge.runLogs''
                  [if command_argument line = [] then ''server.log'' else command_argument line]]
         \<and> executeCommand w ''devforge.runLogs'' [fileName] = Some (runLogs w fileName)
         \<and> runLogs w fileName =
             ([ShowInformationMessage (''[DevForge] Fetching log snapshot for: '' @ fileName),
               Exec (''tail -n 10 '' @ fileName) (workspaceRoot w),
               PostMessage (if error r \<noteq> None \<or> stderr r \<noteq> [] then failure else snapshot)],
              Resolved)
         \<and> str_includes failure fileName
         \<and> str_includes failure (or_else (map_option message (error r)) (stderr r))"
proof (intro conjI)
  obtain first rest where s: "split_spaces (trim line) = first # rest"
    using split_spaces_not_Nil [of "trim line"] by (cases "split_spaces (trim line)") auto
  with assms(3) have "toLowerCase first = ''/logs''" by (simp add: command_verb_def)
  then show "handleUserCommand w line =
           Inr [ExecuteCommand ''devforge.runLogs''
                  [if command_argument line = [] then ''server.log'' else command_argument line]]"
    using s by (simp add: handleUserCommand_def command_argument_def Let_def or_else_def)
next
  show "executeCommand w ''devforge.runLogs'' [fileName] = Some (runLogs w fileName)"
    by (simp add: executeCommand_def first_arg_def template_def)
next
  show "runLogs w fileName =
             ([ShowInformationMessage (''[DevForge] Fetching log snapshot for: '' @ fileName),
               Exec (''tail -n 10 '' @ fileName) (workspaceRoot w),
               PostMessage (if error r \<noteq> None \<or> stderr r \<noteq> [] then failure else snapshot)],
              Resolved)"
    using assms(1,2)
    by (simp add: runLogs_def logs_callback_def postMessageToWebview_def assms(4-6))
next
  have "sublist fileName ((''[ERROR] Could not read log file '' @ [CHR 0x27]) @ fileName
          @ ([CHR 0x27] @ ''. Check file existence in project root. Shell Error: ''
             @ or_else (map_option message (error r)) (stderr r)))"
    by (rule sublist_appendI)
  then show "str_includes failure fileName" by (simp add: str_includes_def assms(5))
next
  have "sublist (or_else (map_option message (error r)) (stderr r))
          ((''[ERROR] Could not read log file '' @ [CHR 0x27] @ fileName @ [CHR 0x27]
            @ ''. Check file existence in project root. Shell Error: '')
           @ or_else (map_option message (error r)) (stderr r))"
    by (rule sublist_append_leftI)
  then show "str_includes failure (or_else (map_option message (error r)) (stderr r))"
    by (simp add: str_includes_def assms(5))
qed

theorem log_tail_witness:
  "view sample_world \<and> truthy (workspaceRoot sample_world)
   \<and> command_verb '' /LOGS '' = ''/logs''
   \<and> handleUserCommand sample_world '' /LOGS '' =
       Inr [ExecuteCommand ''devforge.runLogs'' [''server.log'']]
   \<and> executeCommand sample_world ''devforge.runLogs'' [''server.log'']
       = Some (runLogs sample_world ''server.log'')
   \<and> runLogs sample_world ''server.log'' =
       ([ShowInformationMessage ''[DevForge] Fetching log snapshot for: server.log'',
         Exec ''tail -n 10 server.log'' (Some ''/proj''),
         PostMessage ''**Log Snapshot for server.log (Last 10 lines):**\<newline>```\<newline>1 passing\<newline>```''],
        Resolved)"
proof -
  have h1: "view sample_world" by code_simp
  have h2: "truthy (workspaceRoot sample_world)" by code_simp
  have h3: "command_verb '' /LOGS '' = ''/logs''" by code_simp
  have a: "command_argument '' /LOGS '' = []" by code_simp
  have r: "exec sample_world command cwd = \<lparr>error = None, stdout = ''1 passing'', stderr = []\<rparr>"
    for command cwd by (simp add: sample_world_def)
  have root: "workspaceRoot sample_world = Some ''/proj''" by code_simp
  from log_tail [OF h1 h2 h3 refl refl refl, of "''server.log''"] h1 h2 h3
  show ?thesis by (simp add: a r root)
qed

end
